theory Spec2Isabelle
  imports Main "HOL-Library.Word" "HOL-Library.AList"
begin

section \<open>Strings and values of the host language\<close>

text \<open>
  A JavaScript string is a sequence of 16-bit code units: \<open>s.length\<close> counts code
  units, and a character outside the Basic Multilingual Plane takes two of them (a
  surrogate pair). String literals of the script that are plain ASCII are written with
  \<open>utf16\<close>; every other literal is spelled out in code units.
\<close>

type_synonym unit16 = "16 word"
type_synonym jsstring = "unit16 list"

definition utf16 :: "string \<Rightarrow> jsstring" where
  "utf16 s = map (\<lambda>c. of_nat (of_char c)) s"

text \<open>
  The values \<open>getIcon\<close> can hand back. \<open>ICON_MAP\<close> is an object literal, so a
  property read on it falls through to \<open>Object.prototype\<close>; what is found there is a
  built-in function or object, named here by its path in the global environment.
\<close>

datatype jsval = VUndefined | VStr jsstring | VBuiltin string

fun truthy :: "jsval \<Rightarrow> bool" where
  "truthy VUndefined = False"
| "truthy (VStr s) = (s \<noteq> [])"
| "truthy (VBuiltin b) = True"

section \<open>The icon table\<close>

text \<open>The own properties of \<open>ICON_MAP\<close>, in the order of the object literal.\<close>

definition ICON_MAP :: "(jsstring \<times> jsstring) list" where
  "ICON_MAP =
    [(utf16 ''portfolio'',   [0xD83D, 0xDCBC]),
     (utf16 ''resume'',      [0xD83D, 0xDCC4]),
     (utf16 ''linkedin'',    [0xD83D, 0xDCBC]),
     (utf16 ''blog'',        [0x270D, 0xFE0F]),
     (utf16 ''github'',      [0xD83D, 0xDC68, 0x200D, 0xD83D, 0xDCBB]),
     (utf16 ''email'',       [0x2709, 0xFE0F]),
     (utf16 ''twitter'',     [0xD83D, 0xDC26]),
     (utf16 ''website'',     [0xD83C, 0xDF10]),
     (utf16 ''youtube'',     [0xD83D, 0xDCFA]),
     (utf16 ''medium'',      [0xD83D, 0xDCDD]),
     (utf16 ''dribbble'',    [0xD83C, 0xDFA8]),
     (utf16 ''behance'',     [0xD83C, 0xDFA8]),
     (utf16 ''instagram'',   [0xD83D, 0xDCF8]),
     (utf16 ''facebook'',    [0xD83D, 0xDC65]),
     (utf16 ''discord'',     [0xD83D, 0xDCAC]),
     (utf16 ''slack'',       [0xD83D, 0xDCAC]),
     (utf16 ''telegram'',    [0x2708, 0xFE0F]),
     (utf16 ''whatsapp'',    [0xD83D, 0xDCAC]),
     (utf16 ''phone'',       [0xD83D, 0xDCDE]),
     (utf16 ''calendar'',    [0xD83D, 0xDCC5]),
     (utf16 ''research'',    [0xD83D, 0xDD2C]),
     (utf16 ''publication'', [0xD83D, 0xDCDA]),
     (utf16 ''project'',     [0xD83D, 0xDE80]),
     (utf16 ''default'',     [0xD83D, 0xDD17])]"

text \<open>
  The properties every object literal inherits from \<open>Object.prototype\<close>: the seven of
  the language core and the five legacy accessors that browsers must provide.
\<close>

definition Object_prototype :: "(jsstring \<times> string) list" where
  "Object_prototype =
    [(utf16 ''constructor'',          ''Object''),
     (utf16 ''hasOwnProperty'',       ''Object.prototype.hasOwnProperty''),
     (utf16 ''isPrototypeOf'',        ''Object.prototype.isPrototypeOf''),
     (utf16 ''propertyIsEnumerable'', ''Object.prototype.propertyIsEnumerable''),
     (utf16 ''toLocaleString'',       ''Object.prototype.toLocaleString''),
     (utf16 ''toString'',             ''Object.prototype.toString''),
     (utf16 ''valueOf'',              ''Object.prototype.valueOf''),
     (utf16 ''__proto__'',            ''Object.prototype''),
     (utf16 ''__defineGetter__'',     ''Object.prototype.__defineGetter__''),
     (utf16 ''__defineSetter__'',     ''Object.prototype.__defineSetter__''),
     (utf16 ''__lookupGetter__'',     ''Object.prototype.__lookupGetter__''),
     (utf16 ''__lookupSetter__'',     ''Object.prototype.__lookupSetter__'')]"

text \<open>\<open>ICON_MAP[key]\<close>: own properties first, then the prototype, else \<open>undefined\<close>.\<close>

definition ICON_MAP_get :: "jsstring \<Rightarrow> jsval" where
  "ICON_MAP_get key =
     (case map_of ICON_MAP key of
        Some glyph \<Rightarrow> VStr glyph
      | None \<Rightarrow>
         (case map_of Object_prototype key of
            Some builtin \<Rightarrow> VBuiltin builtin
          | None \<Rightarrow> VUndefined))"

section \<open>The icon resolver\<close>

text \<open>
  The pattern \<open>/[\u{1F300}-\u{1F9FF}]/u\<close> is matched against the code points of the
  string: under the \<open>u\<close> flag a lead surrogate followed by a trail surrogate is read as
  one code point, any other code unit as itself.
\<close>

fun code_points :: "jsstring \<Rightarrow> nat list" where
  "code_points [] = []"
| "code_points [u] = [unat u]"
| "code_points (u # v # us) =
     (if 0xD800 \<le> u \<and> u \<le> 0xDBFF \<and> 0xDC00 \<le> v \<and> v \<le> 0xDFFF
      then (0x10000 + (unat u - 0xD800) * 0x400 + (unat v - 0xDC00)) # code_points us
      else unat u # code_points (v # us))"

definition pictographic_test :: "jsstring \<Rightarrow> bool" where
  "pictographic_test s = list_ex (\<lambda>cp. 0x1F300 \<le> cp \<and> cp \<le> 0x1F9FF) (code_points s)"

text \<open>
  \<open>String.prototype.trim\<close> removes the white space and line terminator code units of
  the language from both ends.
\<close>

definition is_white_space :: "unit16 \<Rightarrow> bool" where
  "is_white_space u \<longleftrightarrow>
     u \<in> {0x0009, 0x000A, 0x000B, 0x000C, 0x000D, 0x0020, 0x00A0, 0x1680,
          0x2028, 0x2029, 0x202F, 0x205F, 0x3000, 0xFEFF}
     \<or> (0x2000 \<le> u \<and> u \<le> 0x200A)"

definition trim :: "jsstring \<Rightarrow> jsstring" where
  "trim s = rev (dropWhile is_white_space (rev (dropWhile is_white_space s)))"

text \<open>
  \<open>getIcon(iconName)\<close>. The argument is the optional string of a link record, \<open>None\<close>
  when the field is missing. \<open>String.prototype.toLowerCase\<close> follows the Unicode tables
  of the host; it is the parameter \<open>toLowerCase\<close> here, so every result holds for
  whatever the host does.
\<close>

definition getIcon :: "(jsstring \<Rightarrow> jsstring) \<Rightarrow> jsstring option \<Rightarrow> jsval" where
  "getIcon toLowerCase iconName =
     (case iconName of
        None \<Rightarrow> ICON_MAP_get (utf16 ''default'')
      | Some s \<Rightarrow>
          if s = [] then ICON_MAP_get (utf16 ''default'')
          else if length s \<le> 3 \<and> pictographic_test s then VStr s
          else
            let normalizedName = trim (toLowerCase s);
                found = ICON_MAP_get normalizedName
            in if truthy found then found else ICON_MAP_get (utf16 ''default''))"

text \<open>
  Lower-casing restricted to the Basic Latin letters. On a string of ASCII code units
  this is what \<open>toLowerCase\<close> computes; it instantiates the parameter in the examples.
\<close>

definition asciiLowerCase :: "jsstring \<Rightarrow> jsstring" where
  "asciiLowerCase s = map (\<lambda>u. if 0x41 \<le> u \<and> u \<le> 0x5A then u + 0x20 else u) s"

text \<open>
  \<open>ICON_MAP.default\<close>, and what counts as a glyph: a string that is not empty.
\<close>

definition default_glyph :: jsstring where
  "default_glyph = [0xD83D, 0xDD17]"

definition is_glyph :: "jsval \<Rightarrow> bool" where
  "is_glyph v = (case v of VStr g \<Rightarrow> g \<noteq> [] | _ \<Rightarrow> False)"

section \<open>Records of the link document\<close>

text \<open>
  The parsed \<open>links.json\<close>, typed as the data model has it. An optional field is an
  \<open>option\<close>, \<open>None\<close> when the key is missing (or \<open>null\<close>). The fields carry a prefix
  because a profile and a link both have a \<open>title\<close>.
\<close>

record profile_record =
  p_image :: "jsstring option"
  p_name :: "jsstring option"
  p_title :: "jsstring option"
  p_bio :: "jsstring option"

record link_record =
  l_url :: jsstring
  l_title :: jsstring
  l_description :: "jsstring option"
  l_icon :: "jsstring option"
  l_active :: "bool option"
  l_analytics :: "bool option"

text \<open>
  What the \<open>links\<close> key of the document holds, by what \<open>renderLinks\<close> makes of it:
  nothing to show (the key is missing, \<open>null\<close>, or another value that is falsy or whose
  \<open>length\<close> is 0), an array of link records, or a truthy value that is no array and
  whose \<open>length\<close> is not 0 (an object, a number, a text), which has no \<open>filter\<close>
  method.
\<close>

datatype links_value = NoLinks | LinkList "link_record list" | NotAList

record link_document =
  doc_profile :: "profile_record option"
  doc_links :: links_value

text \<open>\<open>x || fallback\<close> on an optional string: the empty string is falsy as well.\<close>

definition or_else :: "jsstring option \<Rightarrow> jsstring \<Rightarrow> jsstring" where
  "or_else x fallback = (case x of None \<Rightarrow> fallback | Some s \<Rightarrow> if s = [] then fallback else s)"

section \<open>The page\<close>

text \<open>
  An element holds its attributes (the properties \<open>className\<close>, \<open>href\<close>, \<open>target\<close>,
  \<open>rel\<close>, \<open>src\<close> and \<open>alt\<close> reflect the attributes \<open>class\<close>, \<open>href\<close>, ...), its click
  listeners, what the last assignment to \<open>innerHTML\<close> or \<open>textContent\<close> put into it, and
  the nodes appended since that assignment. A click listener is kept on the element as
  the call it would make, \<open>trackClick(link)\<close>; rendering does not run it.
\<close>

datatype listener = TrackClick link_record

datatype content = Untouched | InnerHTML jsval | TextContent jsstring

datatype node =
  Element (tagName: string) (attributes: "(string \<times> jsstring) list")
    (listeners: "listener list") (inner: content) (childNodes: "node list")

definition createElement :: "string \<Rightarrow> node" where
  "createElement t = Element t [] [] Untouched []"

fun setAttribute :: "string \<Rightarrow> jsstring \<Rightarrow> node \<Rightarrow> node" where
  "setAttribute k v (Element t as ls c ch) = Element t (AList.update k v as) ls c ch"

fun addClickListener :: "listener \<Rightarrow> node \<Rightarrow> node" where
  "addClickListener l (Element t as ls c ch) = Element t as (ls @ [l]) c ch"

fun set_innerHTML :: "jsval \<Rightarrow> node \<Rightarrow> node" where
  "set_innerHTML v (Element t as ls c ch) = Element t as ls (InnerHTML v) []"

fun set_textContent :: "jsstring \<Rightarrow> node \<Rightarrow> node" where
  "set_textContent v (Element t as ls c ch) = Element t as ls (TextContent v) []"

fun appendChild :: "node \<Rightarrow> node \<Rightarrow> node" where
  "appendChild n (Element t as ls c ch) = Element t as ls c (ch @ [n])"

text \<open>
  The errors of the script: the \<open>Error\<close> it throws itself, the \<open>TypeError\<close> of a
  rejected fetch or of a property access on \<open>null\<close>, the \<open>SyntaxError\<close> of a body that
  is not JSON.
\<close>

datatype js_error = Error jsstring | TypeError | SyntaxError

text \<open>
  The state the script works on: the five elements it looks up by id (\<open>None\<close> when the
  markup has no element of that id), the document title and the error console. The five
  elements are taken to be distinct and not nested in one another.
\<close>

record page =
  profileImage :: "node option"
  profileName :: "node option"
  profileTitle :: "node option"
  profileBio :: "node option"
  linksContainer :: "node option"
  documentTitle :: jsstring
  console :: "(string \<times> js_error) list"

section \<open>The profile renderer\<close>

text \<open>
  The four blocks of \<open>updateProfile\<close>, one per field. A field is used when it is
  truthy: present and not the empty string.
\<close>

definition update_image :: "profile_record \<Rightarrow> page \<Rightarrow> page" where
  "update_image p d =
     (case p_image p of
        None \<Rightarrow> d
      | Some img \<Rightarrow>
          if img = [] then d
          else (case profileImage d of
                  None \<Rightarrow> d
                | Some el \<Rightarrow>
                    d\<lparr>profileImage := Some
                       (setAttribute ''alt'' (or_else (p_name p) (utf16 ''Profile Picture''))
                         (setAttribute ''src'' img el))\<rparr>))"

definition update_name :: "profile_record \<Rightarrow> page \<Rightarrow> page" where
  "update_name p d =
     (case p_name p of
        None \<Rightarrow> d
      | Some name \<Rightarrow>
          if name = [] then d
          else (case profileName d of
                  None \<Rightarrow> d
                | Some el \<Rightarrow> d\<lparr>profileName := Some (set_textContent name el)\<rparr>)
               \<lparr>documentTitle := name @ utf16 '' | '' @ or_else (p_title p) (utf16 ''Links'')\<rparr>)"

definition update_title :: "profile_record \<Rightarrow> page \<Rightarrow> page" where
  "update_title p d =
     (case p_title p of
        None \<Rightarrow> d
      | Some title \<Rightarrow>
          if title = [] then d
          else (case profileTitle d of
                  None \<Rightarrow> d
                | Some el \<Rightarrow> d\<lparr>profileTitle := Some (set_textContent title el)\<rparr>))"

definition update_bio :: "profile_record \<Rightarrow> page \<Rightarrow> page" where
  "update_bio p d =
     (case p_bio p of
        None \<Rightarrow> d
      | Some bio \<Rightarrow>
          if bio = [] then d
          else (case profileBio d of
                  None \<Rightarrow> d
                | Some el \<Rightarrow> d\<lparr>profileBio := Some (set_textContent bio el)\<rparr>))"

definition updateProfile :: "profile_record option \<Rightarrow> page \<Rightarrow> page" where
  "updateProfile profile d =
     (case profile of
        None \<Rightarrow> d
      | Some p \<Rightarrow> update_bio p (update_title p (update_name p (update_image p d))))"

section \<open>The link renderer\<close>

definition createLinkCard :: "(jsstring \<Rightarrow> jsstring) \<Rightarrow> link_record \<Rightarrow> nat \<Rightarrow> node" where
  "createLinkCard toLowerCase link index =
     (let card = createElement ''a'';
          card = setAttribute ''class'' (utf16 ''link-card'') card;
          card = setAttribute ''href'' (l_url link) card;
          card = setAttribute ''target'' (utf16 ''_blank'') card;
          card = setAttribute ''rel'' (utf16 ''noopener noreferrer'') card;
          card = setAttribute ''aria-label'' (l_title link) card;
          card = (if l_analytics link = Some True then addClickListener (TrackClick link) card
                  else card);
          icon = createElement ''div'';
          icon = setAttribute ''class'' (utf16 ''link-icon'') icon;
          icon = set_innerHTML (getIcon toLowerCase (l_icon link)) icon;
          card = appendChild icon card;
          content = createElement ''div'';
          content = setAttribute ''class'' (utf16 ''link-content'') content;
          title = createElement ''div'';
          title = setAttribute ''class'' (utf16 ''link-title'') title;
          title = set_textContent (l_title link) title;
          content = appendChild title content;
          content = (case l_description link of
                       None \<Rightarrow> content
                     | Some text \<Rightarrow>
                         if text = [] then content
                         else
                           let description = createElement ''div'';
                               description = setAttribute ''class'' (utf16 ''link-description'') description;
                               description = set_textContent text description
                           in appendChild description content);
          card = appendChild content card;
          arrow = createElement ''div'';
          arrow = setAttribute ''class'' (utf16 ''link-arrow'') arrow;
          arrow = set_innerHTML (VStr [0x2192]) arrow
      in appendChild arrow card)"

definition no_links_markup :: jsstring where
  \<open>no_links_markup = utf16 ''<p class="loading">No links available</p>''\<close>

text \<open>
  \<open>renderLinks(links)\<close> returns the error it throws, if any, with the page as it is at
  that moment. An assignment through \<open>this.linksContainer\<close> throws a \<open>TypeError\<close> when
  the page has no such element, and so does the call of \<open>links.filter\<close> on a value that
  is no array, after the container has been cleared. \<open>forEach\<close> hands each record and
  its index to the callback, from left to right.
\<close>

definition renderLinks ::
  "(jsstring \<Rightarrow> jsstring) \<Rightarrow> links_value \<Rightarrow> page \<Rightarrow> js_error option \<times> page" where
  "renderLinks toLowerCase links d =
     (if links = NoLinks \<or> links = LinkList [] then
        (case linksContainer d of
           None \<Rightarrow> (Some TypeError, d)
         | Some el \<Rightarrow> (None, d\<lparr>linksContainer := Some (set_innerHTML (VStr no_links_markup) el)\<rparr>))
      else
        (case linksContainer d of
           None \<Rightarrow> (Some TypeError, d)
         | Some el \<Rightarrow>
             let cleared = set_innerHTML (VStr []) el
             in (case links of
                   LinkList records \<Rightarrow>
                     let activeLinks = filter (\<lambda>link. l_active link \<noteq> Some False) records
                     in (None, d\<lparr>linksContainer := Some
                           (fold (\<lambda>(link, index). appendChild (createLinkCard toLowerCase link index))
                              (zip activeLinks [0 ..< length activeLinks]) cleared)\<rparr>)
                 | _ \<Rightarrow> (Some TypeError, d\<lparr>linksContainer := Some cleared\<rparr>))))"

section \<open>Loading, the error view and the initialisation\<close>

definition error_view_markup :: jsstring where
  \<open>error_view_markup =
     [0x0A] @ utf16 ''            <div class="loading" style="color: #E53E3E;">'' @
     [0x0A] @ utf16 ''                <p>'' @ [0x26A0, 0xFE0F] @ utf16 '' Error loading links</p>'' @
     [0x0A] @ utf16 ''                <p style="font-size: 0.9rem; margin-top: 0.5rem;">'' @
     [0x0A] @ utf16 ''                    Please make sure <code>links.json</code> exists and is valid JSON.'' @
     [0x0A] @ utf16 ''                </p>'' @
     [0x0A] @ utf16 ''            </div>'' @
     [0x0A] @ utf16 ''        ''\<close>

definition handleError :: "js_error \<Rightarrow> page \<Rightarrow> js_error option \<times> page" where
  "handleError error d =
     (let d1 = d\<lparr>console := console d @ [(''Application error:'', error)]\<rparr>
      in case linksContainer d1 of
           None \<Rightarrow> (Some TypeError, d1)
         | Some el \<Rightarrow> (None, d1\<lparr>linksContainer := Some (set_innerHTML (VStr error_view_markup) el)\<rparr>))"

text \<open>
  What \<open>fetch\<close> comes back with: a rejection, or a response with its \<open>ok\<close> flag and
  what \<open>response.json()\<close> makes of the body (\<open>None\<close> when the body is not JSON).
\<close>

datatype fetch_outcome = Rejected js_error | Response bool "link_document option"

definition linksFile :: jsstring where
  "linksFile = utf16 ''links.json''"

definition loadJSON ::
  "(jsstring \<Rightarrow> fetch_outcome) \<Rightarrow> jsstring \<Rightarrow> page \<Rightarrow> (js_error + link_document) \<times> page" where
  "loadJSON fetch filename d =
     (let result = (case fetch filename of
                      Rejected e \<Rightarrow> Inl e
                    | Response ok body \<Rightarrow>
                        if \<not> ok then Inl (Error (utf16 ''Failed to load '' @ filename))
                        else (case body of None \<Rightarrow> Inl SyntaxError | Some data \<Rightarrow> Inr data))
      in case result of
           Inl error \<Rightarrow> (Inl error, d\<lparr>console := console d @ [(''Error loading JSON:'', error)]\<rparr>)
         | Inr data \<Rightarrow> (Inr data, d))"

text \<open>
  The body of the \<open>try\<close> in \<open>init\<close>: the error that leaves it, if any, and the page as
  it is when the error is thrown. Nothing is rolled back.
\<close>

definition init_try ::
  "(jsstring \<Rightarrow> jsstring) \<Rightarrow> (jsstring \<Rightarrow> fetch_outcome) \<Rightarrow> page \<Rightarrow> js_error option \<times> page" where
  "init_try toLowerCase fetch d =
     (case loadJSON fetch linksFile d of
        (Inl error, d1) \<Rightarrow> (Some error, d1)
      | (Inr data, d1) \<Rightarrow>
          renderLinks toLowerCase (doc_links data) (updateProfile (doc_profile data) d1))"

definition init ::
  "(jsstring \<Rightarrow> jsstring) \<Rightarrow> (jsstring \<Rightarrow> fetch_outcome) \<Rightarrow> page \<Rightarrow> js_error option \<times> page" where
  "init toLowerCase fetch d =
     (case init_try toLowerCase fetch d of
        (None, d1) \<Rightarrow> (None, d1)
      | (Some error, d1) \<Rightarrow> handleError error d1)"

section \<open>What is seen on the page\<close>

text \<open>
  The cards in the link container are the nodes appended to it since its \<open>innerHTML\<close>
  was last assigned; the markup of that assignment is its content. The profile slots are
  the four profile elements and the document title.
\<close>

definition rendered_cards :: "page \<Rightarrow> node list" where
  "rendered_cards d = (case linksContainer d of None \<Rightarrow> [] | Some el \<Rightarrow> childNodes el)"

definition container_content :: "page \<Rightarrow> content option" where
  "container_content d = map_option inner (linksContainer d)"

definition profile_slots ::
  "page \<Rightarrow> node option \<times> node option \<times> node option \<times> node option \<times> jsstring" where
  "profile_slots d = (profileImage d, profileName d, profileTitle d, profileBio d, documentTitle d)"

text \<open>
  The description slots of a card: the children of class \<open>link-description\<close> of its
  children of class \<open>link-content\<close>.
\<close>

definition has_class :: "jsstring \<Rightarrow> node \<Rightarrow> bool" where
  "has_class c n \<longleftrightarrow> map_of (attributes n) ''class'' = Some c"

definition description_slots :: "node \<Rightarrow> node list" where
  "description_slots linkCard =
     concat (map (\<lambda>wrapper. filter (has_class (utf16 ''link-description'')) (childNodes wrapper))
               (filter (has_class (utf16 ''link-content'')) (childNodes linkCard)))"

section \<open>Example inputs\<close>

text \<open>
  A page that has all five elements and one that lacks the link container, profiles,
  link records, a document, and two answers of the network, for the examples below.
\<close>

definition example_page :: page where
  "example_page =
     \<lparr>profileImage = Some (createElement ''img''),
      profileName = Some (createElement ''h1''),
      profileTitle = Some (createElement ''p''),
      profileBio = Some (createElement ''p''),
      linksContainer = Some (createElement ''div''),
      documentTitle = utf16 ''Links'',
      console = []\<rparr>"

definition example_page_without_container :: page where
  "example_page_without_container = example_page\<lparr>linksContainer := None\<rparr>"

definition example_named :: profile_record where
  "example_named =
     \<lparr>p_image = None, p_name = Some (utf16 ''Ada''), p_title = Some (utf16 ''Engineer''),
      p_bio = None\<rparr>"

definition example_pictured :: profile_record where
  "example_pictured =
     \<lparr>p_image = Some (utf16 ''me.png''), p_name = None, p_title = None,
      p_bio = Some (utf16 ''Hello'')\<rparr>"

definition example_untitled :: profile_record where
  "example_untitled =
     \<lparr>p_image = None, p_name = Some (utf16 ''Ada''), p_title = Some [], p_bio = None\<rparr>"

definition example_link :: link_record where
  "example_link =
     \<lparr>l_url = utf16 ''https://x'', l_title = utf16 ''GitHub'', l_description = None,
      l_icon = Some (utf16 ''github''), l_active = None, l_analytics = None\<rparr>"

definition example_hidden :: link_record where
  "example_hidden =
     \<lparr>l_url = utf16 ''https://y'', l_title = utf16 ''Old blog'',
      l_description = Some (utf16 ''Archived''), l_icon = Some (utf16 ''blog''),
      l_active = Some False, l_analytics = None\<rparr>"

definition example_blank_description :: link_record where
  "example_blank_description =
     \<lparr>l_url = utf16 ''https://x'', l_title = utf16 ''GitHub'', l_description = Some [],
      l_icon = None, l_active = None, l_analytics = None\<rparr>"

definition example_document :: link_document where
  "example_document = \<lparr>doc_profile = Some example_named, doc_links = NotAList\<rparr>"

definition example_fetch_not_ok :: "jsstring \<Rightarrow> fetch_outcome" where
  "example_fetch_not_ok filename = Response False None"

definition example_fetch_ok :: "jsstring \<Rightarrow> fetch_outcome" where
  "example_fetch_ok filename = Response True (Some example_document)"

section \<open>Properties of the icon resolver\<close>

lemma ICON_MAP_default: "ICON_MAP_get (utf16 ''default'') = VStr default_glyph"
  by code_simp

lemma ICON_MAP_values_truthy: "\<forall>(k, g) \<in> set ICON_MAP. g \<noteq> []"
  by code_simp

lemma map_of_ICON_MAP_truthy: "map_of ICON_MAP k = Some g \<Longrightarrow> g \<noteq> []"
  using ICON_MAP_values_truthy by (auto dest: map_of_SomeD)

lemma pictographic_test_Nil: "\<not> pictographic_test []"
  by (simp add: pictographic_test_def)

lemma getIcon_absent: "getIcon toLowerCase None = VStr default_glyph"
  by (simp add: getIcon_def ICON_MAP_default)

lemma getIcon_empty: "getIcon toLowerCase (Some []) = VStr default_glyph"
  by (simp add: getIcon_def ICON_MAP_default)

text \<open>
  C4. A token of at most three code units that holds a code point of the range
  U+1F300 to U+1F9FF comes back as it is, whatever lower-casing would make of it and
  whatever the table holds.
\<close>

theorem getIcon_literal_glyph:
  "length s \<le> 3 \<Longrightarrow> pictographic_test s \<Longrightarrow> getIcon toLowerCase (Some s) = VStr s"
  by (auto simp: getIcon_def pictographic_test_Nil)

theorem getIcon_literal_glyph_witness:
  "length [0xD83C, 0xDFA8 :: unit16] \<le> 3 \<and> pictographic_test [0xD83C, 0xDFA8]
   \<and> getIcon asciiLowerCase (Some [0xD83C, 0xDFA8]) = VStr [0xD83C, 0xDFA8]"
proof -
  have short: "length [0xD83C, 0xDFA8 :: unit16] \<le> 3"
    by simp
  have pict: "pictographic_test [0xD83C, 0xDFA8]"
    by (simp add: pictographic_test_def)
  from getIcon_literal_glyph [OF short pict] short pict show ?thesis
    by blast
qed

text \<open>
  Past the two early returns the result is the table entry of the normalised name, an
  inherited property of the table object when the table has no such entry, and the
  default glyph only when both are missing.
\<close>

lemma getIcon_lookup:
  assumes "s \<noteq> []" and "\<not> (length s \<le> 3 \<and> pictographic_test s)"
  shows "getIcon toLowerCase (Some s) =
           (case map_of ICON_MAP (trim (toLowerCase s)) of
              Some glyph \<Rightarrow> VStr glyph
            | None \<Rightarrow>
               (case map_of Object_prototype (trim (toLowerCase s)) of
                  Some builtin \<Rightarrow> VBuiltin builtin
                | None \<Rightarrow> VStr default_glyph))"
  using assms
  by (auto simp: getIcon_def Let_def ICON_MAP_get_def ICON_MAP_default [unfolded ICON_MAP_get_def]
           dest: map_of_ICON_MAP_truthy split: option.splits)

lemma getIcon_unknown_default:
  assumes "\<not> (length s \<le> 3 \<and> pictographic_test s)"
    and "map_of ICON_MAP (trim (toLowerCase s)) = None"
    and "map_of Object_prototype (trim (toLowerCase s)) = None"
  shows "getIcon toLowerCase (Some s) = VStr default_glyph"
proof (cases "s = []")
  case True
  then show ?thesis by (simp add: getIcon_empty)
next
  case False
  with assms show ?thesis by (simp add: getIcon_lookup)
qed

lemma getIcon_glyph_unless_inherited:
  assumes "map_of ICON_MAP (trim (toLowerCase s)) \<noteq> None
           \<or> map_of Object_prototype (trim (toLowerCase s)) = None"
  shows "is_glyph (getIcon toLowerCase (Some s))"
proof (cases "s = []")
  case True
  then show ?thesis by (simp add: getIcon_empty is_glyph_def default_glyph_def)
next
  case nonempty: False
  show ?thesis
  proof (cases "length s \<le> 3 \<and> pictographic_test s")
    case True
    then show ?thesis using nonempty by (simp add: getIcon_def is_glyph_def)
  next
    case False
    with nonempty assms show ?thesis
      by (auto simp: getIcon_lookup is_glyph_def default_glyph_def
               dest: map_of_ICON_MAP_truthy split: option.splits)
  qed
qed

text \<open>
  C2. An absent token gives the default glyph (\<open>getIcon_absent\<close>), and so does a token
  whose normalised name is neither in the table nor inherited by it
  (\<open>getIcon_unknown_default\<close>). The token \<open>constructor\<close> has eleven code units, so it is
  no literal glyph, and the table has no entry of that name; the resolver still does not
  answer with the default glyph but with the function \<open>Object\<close>, which the table object
  inherits from its prototype.
\<close>

theorem getIcon_constructor_not_default:
  "length (utf16 ''constructor'') = 11
   \<and> map_of ICON_MAP (trim (asciiLowerCase (utf16 ''constructor''))) = None
   \<and> getIcon asciiLowerCase (Some (utf16 ''constructor'')) = VBuiltin ''Object''
   \<and> getIcon asciiLowerCase None = VStr default_glyph"
proof (intro conjI)
  show "length (utf16 ''constructor'') = 11"
    by (simp add: utf16_def)
  show "map_of ICON_MAP (trim (asciiLowerCase (utf16 ''constructor''))) = None"
    by code_simp
  show "getIcon asciiLowerCase (Some (utf16 ''constructor'')) = VBuiltin ''Object''"
    by code_simp
  show "getIcon asciiLowerCase None = VStr default_glyph"
    by (rule getIcon_absent)
qed

text \<open>
  C3. The resolver has no failing branch on an optional string and is a function of its
  argument, and its result is a glyph unless the normalised name is inherited by the
  table object without being an entry of it (\<open>getIcon_glyph_unless_inherited\<close>). For
  the token \<open>constructor\<close> the result is not a glyph: it is not a string at all.
\<close>

theorem getIcon_constructor_not_glyph:
  "is_glyph (getIcon asciiLowerCase (Some (utf16 ''constructor''))) = False"
  by code_simp

section \<open>Properties of the profile renderer\<close>

text \<open>What each block does to each part of the page.\<close>

lemma updateProfile_None: "updateProfile None d = d"
  by (simp add: updateProfile_def)

lemma update_image_fields:
  "profileImage (update_image p d) =
     (case p_image p of
        None \<Rightarrow> profileImage d
      | Some img \<Rightarrow>
          if img = [] then profileImage d
          else map_option
                 (\<lambda>el. setAttribute ''alt'' (or_else (p_name p) (utf16 ''Profile Picture''))
                         (setAttribute ''src'' img el))
                 (profileImage d))"
  "profileName (update_image p d) = profileName d"
  "profileTitle (update_image p d) = profileTitle d"
  "profileBio (update_image p d) = profileBio d"
  "linksContainer (update_image p d) = linksContainer d"
  "documentTitle (update_image p d) = documentTitle d"
  "console (update_image p d) = console d"
  by (simp_all add: update_image_def split: option.splits)

lemma update_name_fields:
  "profileImage (update_name p d) = profileImage d"
  "profileName (update_name p d) =
     (case p_name p of
        None \<Rightarrow> profileName d
      | Some name \<Rightarrow>
          if name = [] then profileName d
          else map_option (set_textContent name) (profileName d))"
  "profileTitle (update_name p d) = profileTitle d"
  "profileBio (update_name p d) = profileBio d"
  "linksContainer (update_name p d) = linksContainer d"
  "documentTitle (update_name p d) =
     (case p_name p of
        None \<Rightarrow> documentTitle d
      | Some name \<Rightarrow>
          if name = [] then documentTitle d
          else name @ utf16 '' | '' @ or_else (p_title p) (utf16 ''Links''))"
  "console (update_name p d) = console d"
  by (simp_all add: update_name_def split: option.splits)

lemma update_title_fields:
  "profileImage (update_title p d) = profileImage d"
  "profileName (update_title p d) = profileName d"
  "profileTitle (update_title p d) =
     (case p_title p of
        None \<Rightarrow> profileTitle d
      | Some title \<Rightarrow>
          if title = [] then profileTitle d
          else map_option (set_textContent title) (profileTitle d))"
  "profileBio (update_title p d) = profileBio d"
  "linksContainer (update_title p d) = linksContainer d"
  "documentTitle (update_title p d) = documentTitle d"
  "console (update_title p d) = console d"
  by (simp_all add: update_title_def split: option.splits)

lemma update_bio_fields:
  "profileImage (update_bio p d) = profileImage d"
  "profileName (update_bio p d) = profileName d"
  "profileTitle (update_bio p d) = profileTitle d"
  "profileBio (update_bio p d) =
     (case p_bio p of
        None \<Rightarrow> profileBio d
      | Some bio \<Rightarrow>
          if bio = [] then profileBio d
          else map_option (set_textContent bio) (profileBio d))"
  "linksContainer (update_bio p d) = linksContainer d"
  "documentTitle (update_bio p d) = documentTitle d"
  "console (update_bio p d) = console d"
  by (simp_all add: update_bio_def split: option.splits)

lemmas update_fields = update_image_fields update_name_fields update_title_fields update_bio_fields

lemma updateProfile_profileImage:
  "profileImage (updateProfile (Some p) d) =
     (case p_image p of
        None \<Rightarrow> profileImage d
      | Some img \<Rightarrow>
          if img = [] then profileImage d
          else map_option
                 (\<lambda>el. setAttribute ''alt'' (or_else (p_name p) (utf16 ''Profile Picture''))
                         (setAttribute ''src'' img el))
                 (profileImage d))"
  by (simp add: updateProfile_def update_fields split: option.splits)

lemma updateProfile_profileName:
  "profileName (updateProfile (Some p) d) =
     (case p_name p of
        None \<Rightarrow> profileName d
      | Some name \<Rightarrow>
          if name = [] then profileName d
          else map_option (set_textContent name) (profileName d))"
  by (simp add: updateProfile_def update_fields split: option.splits)

lemma updateProfile_profileTitle:
  "profileTitle (updateProfile (Some p) d) =
     (case p_title p of
        None \<Rightarrow> profileTitle d
      | Some title \<Rightarrow>
          if title = [] then profileTitle d
          else map_option (set_textContent title) (profileTitle d))"
  by (simp add: updateProfile_def update_fields split: option.splits)

lemma updateProfile_profileBio:
  "profileBio (updateProfile (Some p) d) =
     (case p_bio p of
        None \<Rightarrow> profileBio d
      | Some bio \<Rightarrow>
          if bio = [] then profileBio d
          else map_option (set_textContent bio) (profileBio d))"
  by (simp add: updateProfile_def update_fields split: option.splits)

lemma updateProfile_documentTitle:
  "documentTitle (updateProfile (Some p) d) =
     (case p_name p of
        None \<Rightarrow> documentTitle d
      | Some name \<Rightarrow>
          if name = [] then documentTitle d
          else name @ utf16 '' | '' @ or_else (p_title p) (utf16 ''Links''))"
  by (simp add: updateProfile_def update_fields split: option.splits)

lemma updateProfile_linksContainer:
  "linksContainer (updateProfile profile d) = linksContainer d"
  by (cases profile) (simp_all add: updateProfile_def update_fields)

lemma updateProfile_console:
  "console (updateProfile profile d) = console d"
  by (cases profile) (simp_all add: updateProfile_def update_fields)

text \<open>
  C5. \<open>updateProfile\<close> changes nothing for an absent profile. For a profile, the element
  of every field that is absent is as it was before: the image element (its \<open>src\<close> and
  \<open>alt\<close>) when \<open>image\<close> is absent, the name element and the document title when
  \<open>name\<close> is absent, the title element when \<open>title\<close> is absent, the bio element when
  \<open>bio\<close> is absent. The link container is never touched.
\<close>

theorem updateProfile_frame:
  "updateProfile None d = d
   \<and> (p_image p = None \<longrightarrow> profileImage (updateProfile (Some p) d) = profileImage d)
   \<and> (p_name p = None \<longrightarrow>
        profileName (updateProfile (Some p) d) = profileName d
        \<and> documentTitle (updateProfile (Some p) d) = documentTitle d)
   \<and> (p_title p = None \<longrightarrow> profileTitle (updateProfile (Some p) d) = profileTitle d)
   \<and> (p_bio p = None \<longrightarrow> profileBio (updateProfile (Some p) d) = profileBio d)
   \<and> linksContainer (updateProfile (Some p) d) = linksContainer d"
  by (simp add: updateProfile_None updateProfile_profileImage updateProfile_profileName
        updateProfile_profileTitle updateProfile_profileBio updateProfile_documentTitle
        updateProfile_linksContainer)

theorem updateProfile_frame_witness:
  "p_image example_named = None \<and> p_bio example_named = None
   \<and> profileImage (updateProfile (Some example_named) example_page) = profileImage example_page
   \<and> profileBio (updateProfile (Some example_named) example_page) = profileBio example_page
   \<and> profileName (updateProfile (Some example_named) example_page) \<noteq> profileName example_page
   \<and> p_name example_pictured = None \<and> p_title example_pictured = None
   \<and> profileName (updateProfile (Some example_pictured) example_page) = profileName example_page
   \<and> documentTitle (updateProfile (Some example_pictured) example_page) = documentTitle example_page
   \<and> profileTitle (updateProfile (Some example_pictured) example_page) = profileTitle example_page"
proof -
  have absent: "p_image example_named = None" "p_bio example_named = None"
    "p_name example_pictured = None" "p_title example_pictured = None"
    by (simp_all add: example_named_def example_pictured_def)
  have changed: "profileName (updateProfile (Some example_named) example_page) \<noteq> profileName example_page"
    by (simp add: updateProfile_profileName example_named_def example_page_def createElement_def utf16_def)
  from updateProfile_frame [of example_page example_named]
    updateProfile_frame [of example_page example_pictured] absent changed
  show ?thesis by blast
qed

text \<open>
  C6, as the claim states it, fails for a title that is present but empty: the heading
  of the profile \<open>{name: "Ada", title: ""}\<close> is \<open>Ada | Links\<close>, not \<open>Ada | \<close>.
\<close>

theorem updateProfile_heading_counterexample:
  "p_name example_untitled = Some (utf16 ''Ada'') \<and> p_title example_untitled = Some []
   \<and> documentTitle (updateProfile (Some example_untitled) example_page) = utf16 ''Ada | Links''
   \<and> documentTitle (updateProfile (Some example_untitled) example_page) \<noteq> utf16 ''Ada'' @ utf16 '' | '' @ []"
  by (simp add: updateProfile_documentTitle example_untitled_def or_else_def utf16_def)

text \<open>
  C6, amended. When \<open>name\<close> is present and not empty, the document title becomes
  \<open>{name} | {title}\<close> if \<open>title\<close> is present and not empty, and \<open>{name} | Links\<close> if
  \<open>title\<close> is absent or empty; when \<open>name\<close> is absent or empty the document title is
  not changed.
\<close>

theorem updateProfile_heading:
  "(p_name p = Some n \<and> n \<noteq> [] \<and> p_title p = Some t \<and> t \<noteq> [] \<longrightarrow>
      documentTitle (updateProfile (Some p) d) = n @ utf16 '' | '' @ t)
   \<and> (p_name p = Some n \<and> n \<noteq> [] \<and> (p_title p = None \<or> p_title p = Some []) \<longrightarrow>
      documentTitle (updateProfile (Some p) d) = n @ utf16 '' | '' @ utf16 ''Links'')
   \<and> (p_name p = None \<or> p_name p = Some [] \<longrightarrow>
      documentTitle (updateProfile (Some p) d) = documentTitle d)"
  by (auto simp: updateProfile_documentTitle or_else_def)

theorem updateProfile_heading_witness:
  "p_name example_named = Some (utf16 ''Ada'') \<and> utf16 ''Ada'' \<noteq> []
   \<and> p_title example_named = Some (utf16 ''Engineer'') \<and> utf16 ''Engineer'' \<noteq> []
   \<and> documentTitle (updateProfile (Some example_named) example_page) = utf16 ''Ada'' @ utf16 '' | '' @ utf16 ''Engineer''
   \<and> p_name example_untitled = Some (utf16 ''Ada'') \<and> p_title example_untitled = Some []
   \<and> documentTitle (updateProfile (Some example_untitled) example_page) = utf16 ''Ada'' @ utf16 '' | '' @ utf16 ''Links''
   \<and> p_name example_pictured = None
   \<and> documentTitle (updateProfile (Some example_pictured) example_page) = documentTitle example_page"
proof -
  have fields: "p_name example_named = Some (utf16 ''Ada'')" "utf16 ''Ada'' \<noteq> []"
    "p_title example_named = Some (utf16 ''Engineer'')" "utf16 ''Engineer'' \<noteq> []"
    "p_name example_untitled = Some (utf16 ''Ada'')" "p_title example_untitled = Some []"
    "p_name example_pictured = None"
    by (simp_all add: example_named_def example_untitled_def example_pictured_def utf16_def)
  from updateProfile_heading [of example_named "utf16 ''Ada''" "utf16 ''Engineer''" example_page]
    updateProfile_heading [of example_untitled "utf16 ''Ada''" "[]" example_page]
    updateProfile_heading [of example_pictured "[]" "[]" example_page] fields
  show ?thesis by blast
qed

section \<open>Properties of the link card\<close>

lemma class_names_differ:
  "utf16 ''link-icon'' \<noteq> utf16 ''link-content''"
  "utf16 ''link-arrow'' \<noteq> utf16 ''link-content''"
  "utf16 ''link-title'' \<noteq> utf16 ''link-description''"
  by (simp_all add: utf16_def)

lemma has_class_simps:
  "has_class c (appendChild n el) = has_class c el"
  "has_class c (set_innerHTML v el) = has_class c el"
  "has_class c (set_textContent s el) = has_class c el"
  "has_class c (addClickListener l el) = has_class c el"
  "k \<noteq> ''class'' \<Longrightarrow> has_class c (setAttribute k s el) = has_class c el"
  "has_class c (setAttribute ''class'' c' el) = (c' = c)"
  by (cases el; simp add: has_class_def update_conv')+

lemma childNodes_simps:
  "childNodes (appendChild n el) = childNodes el @ [n]"
  "childNodes (set_innerHTML v el) = []"
  "childNodes (set_textContent s el) = []"
  "childNodes (addClickListener l el) = childNodes el"
  "childNodes (setAttribute k s el) = childNodes el"
  "childNodes (createElement t) = []"
  by (cases el; simp add: createElement_def)+

lemma inner_set_innerHTML: "inner (set_innerHTML v el) = InnerHTML v"
  by (cases el) simp

text \<open>
  C9, as the claim states it, fails for a description that is present but empty: the
  card of such a record has no description slot.
\<close>

theorem createLinkCard_blank_description:
  "l_description example_blank_description = Some []
   \<and> description_slots (createLinkCard asciiLowerCase example_blank_description 0) = []"
  by code_simp

text \<open>
  C9, amended. The card has a description slot exactly when the description is present
  and not empty; the slot is then one \<open>div\<close> of class \<open>link-description\<close> whose text is
  the description as it is. For an absent or empty description the card has no such
  slot at all.
\<close>

theorem createLinkCard_description:
  "description_slots (createLinkCard toLowerCase link index) =
     (case l_description link of
        None \<Rightarrow> []
      | Some text \<Rightarrow>
          if text = [] then []
          else [set_textContent text
                  (setAttribute ''class'' (utf16 ''link-description'') (createElement ''div''))])"
  by (simp add: createLinkCard_def description_slots_def Let_def has_class_simps childNodes_simps
        class_names_differ split: option.splits)

section \<open>Properties of the link renderer\<close>

lemma childNodes_fold_appendChild:
  "childNodes (fold (\<lambda>x. appendChild (f x)) xs el) = childNodes el @ map f xs"
proof (induction xs arbitrary: el)
  case Nil
  show ?case by simp
next
  case (Cons x xs)
  show ?case by (cases el) (simp add: Cons.IH)
qed

lemma renderLinks_nonempty:
  assumes "links \<noteq> []" and "linksContainer d = Some el"
  shows "renderLinks toLowerCase (LinkList links) d =
           (None, d\<lparr>linksContainer := Some
              (fold (\<lambda>(link, index). appendChild (createLinkCard toLowerCase link index))
                 (zip (filter (\<lambda>link. l_active link \<noteq> Some False) links)
                      [0 ..< length (filter (\<lambda>link. l_active link \<noteq> Some False) links)])
                 (set_innerHTML (VStr []) el))\<rparr>)"
  using assms by (simp add: renderLinks_def Let_def)

lemma renderLinks_not_a_list:
  assumes "linksContainer d = Some el"
  shows "renderLinks toLowerCase NotAList d =
           (Some TypeError, d\<lparr>linksContainer := Some (set_innerHTML (VStr []) el)\<rparr>)"
  using assms by (simp add: renderLinks_def Let_def)

lemma renderLinks_without_container:
  "linksContainer d = None \<Longrightarrow> renderLinks toLowerCase links d = (Some TypeError, d)"
  by (simp add: renderLinks_def)

lemma renderLinks_profile_slots:
  "profile_slots (snd (renderLinks toLowerCase links d)) = profile_slots d"
  by (simp add: renderLinks_def profile_slots_def Let_def split: option.splits links_value.splits)

lemma renderLinks_linksContainer:
  "(linksContainer (snd (renderLinks toLowerCase links d)) = None) = (linksContainer d = None)"
  by (simp add: renderLinks_def Let_def split: option.splits links_value.splits)

lemma no_links_markup_nonempty: "no_links_markup \<noteq> []"
  by (simp add: no_links_markup_def utf16_def)

text \<open>
  C1. For a list of records that is not empty, on a page that has the link container,
  \<open>renderLinks\<close> ends without an error and the cards in the container are the cards of
  the records whose \<open>active\<close> is not \<open>false\<close> (a record without \<open>active\<close> is one of
  them), one card per record, in the order of the list, each made with its position
  among the records kept. Their number is the number of those records.
\<close>

theorem renderLinks_cards:
  assumes "links \<noteq> []" and "linksContainer d = Some el"
  shows "fst (renderLinks toLowerCase (LinkList links) d) = None
    \<and> rendered_cards (snd (renderLinks toLowerCase (LinkList links) d)) =
         map (\<lambda>(link, index). createLinkCard toLowerCase link index)
           (zip (filter (\<lambda>link. l_active link \<noteq> Some False) links)
                [0 ..< length (filter (\<lambda>link. l_active link \<noteq> Some False) links)])
    \<and> length (rendered_cards (snd (renderLinks toLowerCase (LinkList links) d))) =
         length (filter (\<lambda>link. l_active link \<noteq> Some False) links)"
proof -
  let ?card = "\<lambda>(link, index). createLinkCard toLowerCase link index"
  have step: "(\<lambda>(link, index). appendChild (createLinkCard toLowerCase link index))
                = (\<lambda>x. appendChild (?card x))"
    by (simp add: fun_eq_iff split: prod.splits)
  show ?thesis
    by (simp add: renderLinks_nonempty [OF assms] rendered_cards_def step
          childNodes_fold_appendChild childNodes_simps del: upt.simps)
qed

theorem renderLinks_cards_witness:
  "[example_link, example_hidden, example_link] \<noteq> []
   \<and> linksContainer example_page = Some (createElement ''div'')
   \<and> fst (renderLinks asciiLowerCase (LinkList [example_link, example_hidden, example_link]) example_page) = None
   \<and> rendered_cards (snd (renderLinks asciiLowerCase (LinkList [example_link, example_hidden, example_link]) example_page)) =
        [createLinkCard asciiLowerCase example_link 0, createLinkCard asciiLowerCase example_link 1]
   \<and> length (rendered_cards (snd (renderLinks asciiLowerCase (LinkList [example_link, example_hidden, example_link]) example_page))) = 2"
proof -
  have ne: "[example_link, example_hidden, example_link] \<noteq> []"
    by simp
  have el: "linksContainer example_page = Some (createElement ''div'')"
    by (simp add: example_page_def)
  have act: "filter (\<lambda>link. l_active link \<noteq> Some False) [example_link, example_hidden, example_link]
               = [example_link, example_link]"
    by (simp add: example_link_def example_hidden_def)
  from renderLinks_cards [OF ne el, of asciiLowerCase]
  have "fst (renderLinks asciiLowerCase (LinkList [example_link, example_hidden, example_link]) example_page) = None
    \<and> rendered_cards (snd (renderLinks asciiLowerCase (LinkList [example_link, example_hidden, example_link]) example_page)) =
        [createLinkCard asciiLowerCase example_link 0, createLinkCard asciiLowerCase example_link 1]
    \<and> length (rendered_cards (snd (renderLinks asciiLowerCase (LinkList [example_link, example_hidden, example_link]) example_page))) = 2"
    unfolding act by simp
  with ne el show ?thesis
    by blast
qed

text \<open>
  C7. For links that are absent or an empty list, on a page that has the link container,
  \<open>renderLinks\<close> ends without an error, the content of the container is the
  \<open>No links available\<close> paragraph, and the container has no card.
\<close>

theorem renderLinks_no_links:
  assumes "links = NoLinks \<or> links = LinkList []" and "linksContainer d = Some el"
  shows "renderLinks toLowerCase links d =
           (None, d\<lparr>linksContainer := Some (set_innerHTML (VStr no_links_markup) el)\<rparr>)
    \<and> container_content (snd (renderLinks toLowerCase links d)) = Some (InnerHTML (VStr no_links_markup))
    \<and> rendered_cards (snd (renderLinks toLowerCase links d)) = []"
  using assms
  by (auto simp: renderLinks_def container_content_def rendered_cards_def childNodes_simps
        inner_set_innerHTML)

theorem renderLinks_no_links_witness:
  "(LinkList [] = NoLinks \<or> LinkList [] = LinkList [])
   \<and> linksContainer example_page = Some (createElement ''div'')
   \<and> container_content (snd (renderLinks asciiLowerCase (LinkList []) example_page))
        = Some (InnerHTML (VStr no_links_markup))
   \<and> rendered_cards (snd (renderLinks asciiLowerCase (LinkList []) example_page)) = []
   \<and> container_content (snd (renderLinks asciiLowerCase NoLinks example_page))
        = Some (InnerHTML (VStr no_links_markup))
   \<and> rendered_cards (snd (renderLinks asciiLowerCase NoLinks example_page)) = []"
proof -
  have empty: "LinkList [] = NoLinks \<or> LinkList [] = LinkList []"
    by simp
  have absent: "NoLinks = NoLinks \<or> NoLinks = LinkList []"
    by simp
  have el: "linksContainer example_page = Some (createElement ''div'')"
    by (simp add: example_page_def)
  from renderLinks_no_links [OF empty el, of asciiLowerCase]
    renderLinks_no_links [OF absent el, of asciiLowerCase] empty el
  show ?thesis by blast
qed

text \<open>
  C10. For a list that is not empty and whose records all have \<open>active\<close> equal to
  \<open>false\<close>, on a page that has the link container, \<open>renderLinks\<close> ends without an error
  and leaves the container cleared: its content is the empty markup, not the
  \<open>No links available\<close> paragraph, and it has no card. The test for emptiness is made
  on the list as given, before the inactive records are dropped.
\<close>

theorem renderLinks_all_inactive:
  assumes "links \<noteq> []" and "\<forall>link \<in> set links. l_active link = Some False"
    and "linksContainer d = Some el"
  shows "renderLinks toLowerCase (LinkList links) d =
           (None, d\<lparr>linksContainer := Some (set_innerHTML (VStr []) el)\<rparr>)
    \<and> container_content (snd (renderLinks toLowerCase (LinkList links) d)) = Some (InnerHTML (VStr []))
    \<and> container_content (snd (renderLinks toLowerCase (LinkList links) d))
         \<noteq> Some (InnerHTML (VStr no_links_markup))
    \<and> rendered_cards (snd (renderLinks toLowerCase (LinkList links) d)) = []"
proof -
  from assms(2) have "filter (\<lambda>link. l_active link \<noteq> Some False) links = []"
    by (simp add: filter_empty_conv)
  with assms(1,3) show ?thesis
    using no_links_markup_nonempty
    by (auto simp: renderLinks_nonempty container_content_def rendered_cards_def childNodes_simps
          inner_set_innerHTML)
qed

theorem renderLinks_all_inactive_witness:
  "[example_hidden, example_hidden] \<noteq> []
   \<and> list_all (\<lambda>link. l_active link = Some False) [example_hidden, example_hidden]
   \<and> linksContainer example_page = Some (createElement ''div'')
   \<and> container_content (snd (renderLinks asciiLowerCase (LinkList [example_hidden, example_hidden]) example_page))
        = Some (InnerHTML (VStr []))
   \<and> rendered_cards (snd (renderLinks asciiLowerCase (LinkList [example_hidden, example_hidden]) example_page)) = []"
proof -
  have ne: "[example_hidden, example_hidden] \<noteq> []"
    by simp
  have inactive: "\<forall>link \<in> set [example_hidden, example_hidden]. l_active link = Some False"
    by (simp add: example_hidden_def)
  have el: "linksContainer example_page = Some (createElement ''div'')"
    by (simp add: example_page_def)
  from inactive have all: "list_all (\<lambda>link. l_active link = Some False) [example_hidden, example_hidden]"
    by (simp add: list_all_iff)
  from renderLinks_all_inactive [OF ne inactive el, of asciiLowerCase] ne all el
  show ?thesis by blast
qed

section \<open>Properties of the initialisation\<close>

lemma loadJSON_Inl:
  "loadJSON fetch filename d = (Inl e, d1) \<Longrightarrow>
     d1 = d\<lparr>console := console d @ [(''Error loading JSON:'', e)]\<rparr>"
  by (auto simp: loadJSON_def Let_def split: fetch_outcome.splits if_splits option.splits)

lemma loadJSON_Inr: "loadJSON fetch filename d = (Inr data, d1) \<Longrightarrow> d1 = d"
  by (auto simp: loadJSON_def Let_def split: fetch_outcome.splits if_splits option.splits)

lemma loadJSON_not_ok:
  "fetch filename = Response False body \<Longrightarrow>
     loadJSON fetch filename d =
       (Inl (Error (utf16 ''Failed to load '' @ filename)),
        d\<lparr>console := console d @
             [(''Error loading JSON:'', Error (utf16 ''Failed to load '' @ filename))]\<rparr>)"
  by (simp add: loadJSON_def Let_def)

lemma handleError_profile_slots:
  "profile_slots (snd (handleError e d)) = profile_slots d"
  by (simp add: handleError_def profile_slots_def Let_def split: option.splits)

lemma handleError_error_view:
  assumes "linksContainer d \<noteq> None"
  shows "fst (handleError e d) = None
    \<and> container_content (snd (handleError e d)) = Some (InnerHTML (VStr error_view_markup))
    \<and> rendered_cards (snd (handleError e d)) = []"
  using assms
  by (auto simp: handleError_def Let_def container_content_def rendered_cards_def childNodes_simps
        inner_set_innerHTML)

lemma init_try_linksContainer:
  "(linksContainer (snd (init_try toLowerCase fetch d)) = None) = (linksContainer d = None)"
proof (cases "loadJSON fetch linksFile d")
  case (Pair r d1)
  show ?thesis
  proof (cases r)
    case (Inl e)
    with Pair loadJSON_Inl [of fetch linksFile d e d1] show ?thesis
      by (simp add: init_try_def)
  next
    case (Inr data)
    with Pair loadJSON_Inr [of fetch linksFile d data d1] show ?thesis
      by (simp add: init_try_def renderLinks_linksContainer updateProfile_linksContainer)
  qed
qed

lemma init_failure:
  assumes "init_try toLowerCase fetch d = (Some e, d1)"
  shows "init toLowerCase fetch d = handleError e d1"
  using assms by (simp add: init_def)

lemma init_try_not_ok:
  assumes "fetch linksFile = Response False body"
  shows "init_try toLowerCase fetch d =
           (Some (Error (utf16 ''Failed to load '' @ linksFile)),
            d\<lparr>console := console d @
                 [(''Error loading JSON:'', Error (utf16 ''Failed to load '' @ linksFile))]\<rparr>)"
  using assms by (simp add: init_try_def loadJSON_not_ok)

text \<open>
  C8. When an error leaves the \<open>try\<close> of \<open>init\<close>, whichever step threw it, the profile
  elements and the document title end as they were when it was thrown, and on a page
  that has the link container \<open>init\<close> ends without an error, with the error view as the
  content of the container and no card in it. When the response is not \<open>ok\<close>, the error
  is \<open>Failed to load links.json\<close>, and the profile elements and the document title end as
  they were before loading.
\<close>

theorem init_failure_error_view:
  "(init_try toLowerCase fetch d = (Some e, d1) \<longrightarrow>
      profile_slots (snd (init toLowerCase fetch d)) = profile_slots d1
      \<and> (linksContainer d \<noteq> None \<longrightarrow>
           fst (init toLowerCase fetch d) = None
           \<and> container_content (snd (init toLowerCase fetch d)) = Some (InnerHTML (VStr error_view_markup))
           \<and> rendered_cards (snd (init toLowerCase fetch d)) = []))
   \<and> (fetch linksFile = Response False body \<longrightarrow>
      fst (init_try toLowerCase fetch d) = Some (Error (utf16 ''Failed to load '' @ linksFile))
      \<and> profile_slots (snd (init toLowerCase fetch d)) = profile_slots d
      \<and> (linksContainer d \<noteq> None \<longrightarrow>
           fst (init toLowerCase fetch d) = None
           \<and> container_content (snd (init toLowerCase fetch d)) = Some (InnerHTML (VStr error_view_markup))
           \<and> rendered_cards (snd (init toLowerCase fetch d)) = []))"
proof (intro conjI impI)
  assume failed: "init_try toLowerCase fetch d = (Some e, d1)"
  then show "profile_slots (snd (init toLowerCase fetch d)) = profile_slots d1"
    by (simp add: init_failure handleError_profile_slots)
  assume "linksContainer d \<noteq> None"
  with failed init_try_linksContainer [of toLowerCase fetch d] have "linksContainer d1 \<noteq> None"
    by simp
  from handleError_error_view [OF this, of e] failed
  show "fst (init toLowerCase fetch d) = None"
    and "container_content (snd (init toLowerCase fetch d)) = Some (InnerHTML (VStr error_view_markup))"
    and "rendered_cards (snd (init toLowerCase fetch d)) = []"
    by (simp_all add: init_failure)
next
  assume not_ok: "fetch linksFile = Response False body"
  let ?e = "Error (utf16 ''Failed to load '' @ linksFile)"
  let ?d1 = "d\<lparr>console := console d @ [(''Error loading JSON:'', ?e)]\<rparr>"
  from not_ok have failed: "init_try toLowerCase fetch d = (Some ?e, ?d1)"
    by (simp add: init_try_not_ok)
  from failed show "fst (init_try toLowerCase fetch d) = Some ?e"
    by simp
  from failed show "profile_slots (snd (init toLowerCase fetch d)) = profile_slots d"
    by (simp add: init_failure handleError_profile_slots) (simp add: profile_slots_def)
  assume "linksContainer d \<noteq> None"
  then have "linksContainer ?d1 \<noteq> None"
    by simp
  from handleError_error_view [OF this, of ?e] failed
  show "fst (init toLowerCase fetch d) = None"
    and "container_content (snd (init toLowerCase fetch d)) = Some (InnerHTML (VStr error_view_markup))"
    and "rendered_cards (snd (init toLowerCase fetch d)) = []"
    by (simp_all add: init_failure)
qed

text \<open>
  Two runs: a response that is not \<open>ok\<close>, and a document whose \<open>links\<close> is no array,
  where the error is thrown by \<open>renderLinks\<close> after the profile has been written.
\<close>

theorem init_failure_error_view_witness:
  "example_fetch_not_ok linksFile = Response False None
   \<and> linksContainer example_page \<noteq> None
   \<and> fst (init_try asciiLowerCase example_fetch_not_ok example_page)
        = Some (Error (utf16 ''Failed to load '' @ linksFile))
   \<and> profile_slots (snd (init asciiLowerCase example_fetch_not_ok example_page))
        = profile_slots example_page
   \<and> fst (init asciiLowerCase example_fetch_not_ok example_page) = None
   \<and> container_content (snd (init asciiLowerCase example_fetch_not_ok example_page))
        = Some (InnerHTML (VStr error_view_markup))
   \<and> rendered_cards (snd (init asciiLowerCase example_fetch_not_ok example_page)) = []
   \<and> init_try asciiLowerCase example_fetch_ok example_page
        = (Some TypeError,
           (updateProfile (Some example_named) example_page)
             \<lparr>linksContainer := Some (set_innerHTML (VStr []) (createElement ''div''))\<rparr>)
   \<and> profile_slots (snd (init asciiLowerCase example_fetch_ok example_page))
        = profile_slots (updateProfile (Some example_named) example_page)
   \<and> profile_slots (updateProfile (Some example_named) example_page) \<noteq> profile_slots example_page
   \<and> fst (init asciiLowerCase example_fetch_ok example_page) = None
   \<and> container_content (snd (init asciiLowerCase example_fetch_ok example_page))
        = Some (InnerHTML (VStr error_view_markup))
   \<and> rendered_cards (snd (init asciiLowerCase example_fetch_ok example_page)) = []"
proof -
  let ?d1 = "(updateProfile (Some example_named) example_page)
               \<lparr>linksContainer := Some (set_innerHTML (VStr []) (createElement ''div''))\<rparr>"
  have not_ok: "example_fetch_not_ok linksFile = Response False None"
    by (simp add: example_fetch_not_ok_def)
  have container: "linksContainer example_page \<noteq> None"
    by (simp add: example_page_def)
  have "linksContainer (updateProfile (Some example_named) example_page) = Some (createElement ''div'')"
    by (simp add: updateProfile_linksContainer example_page_def)
  then have thrown: "init_try asciiLowerCase example_fetch_ok example_page = (Some TypeError, ?d1)"
    by (simp add: init_try_def loadJSON_def example_fetch_ok_def example_document_def
          renderLinks_not_a_list)
  have reached: "profile_slots ?d1 = profile_slots (updateProfile (Some example_named) example_page)"
    by (simp add: profile_slots_def)
  have changed: "profile_slots (updateProfile (Some example_named) example_page)
        \<noteq> profile_slots example_page"
    by (simp add: profile_slots_def updateProfile_documentTitle example_named_def
          example_page_def or_else_def utf16_def)
  from init_failure_error_view [of asciiLowerCase example_fetch_not_ok example_page _ _ None]
    init_failure_error_view [of asciiLowerCase example_fetch_ok example_page TypeError ?d1]
    not_ok container thrown reached changed
  show ?thesis by metis
qed

end
